theory Spec2Isabelle
  imports Main "HOL-Library.Sublist"
begin

section \<open>JavaScript values\<close>

text \<open>
  The functions of \<^verbatim>\<open>oauth-tooling.ts\<close> pass untyped values around (\<^verbatim>\<open>any\<close>):
  parsed JSON bodies, thrown objects, rejection values. They are modelled by one datatype.
  An object is the list of its own properties in insertion order; \<open>Error n m\<close> is an
  instance of the error class \<open>n\<close> with message \<open>m\<close>.
\<close>

datatype jsval =
    Undefined
  | Null
  | Bool bool
  | Num int
  | Str string
  | Arr "jsval list"
  | Obj "(string \<times> jsval) list"
  | Error string string

text \<open>
  Reading a property \<^verbatim>\<open>v.k\<close>: a \<^verbatim>\<open>TypeError\<close> is thrown (\<open>Inl\<close>) on
  \<^verbatim>\<open>undefined\<close> and \<^verbatim>\<open>null\<close>, a missing property reads as \<^verbatim>\<open>undefined\<close>.
  Inherited methods are left out: the program reads data properties only.
\<close>

fun get_prop :: "jsval \<Rightarrow> string \<Rightarrow> jsval + jsval" where
  "get_prop Undefined k = Inl (Error ''TypeError'' (''Cannot read property '' @ k @ '' of undefined''))"
| "get_prop Null k = Inl (Error ''TypeError'' (''Cannot read property '' @ k @ '' of null''))"
| "get_prop (Obj kvs) k = Inr (case map_of kvs k of Some v \<Rightarrow> v | None \<Rightarrow> Undefined)"
| "get_prop (Error n m) k =
     Inr (if k = ''name'' then Str n else if k = ''message'' then Str m else Undefined)"
| "get_prop (Str s) k = Inr (if k = ''length'' then Num (int (length s)) else Undefined)"
| "get_prop (Arr xs) k = Inr (if k = ''length'' then Num (int (length xs)) else Undefined)"
| "get_prop (Bool b) k = Inr Undefined"
| "get_prop (Num n) k = Inr Undefined"

definition is_TypeError :: "jsval \<Rightarrow> bool" where
  "is_TypeError v = (case v of Error n m \<Rightarrow> n = ''TypeError'' | _ \<Rightarrow> False)"

text \<open>A string-typed value that may be \<^verbatim>\<open>undefined\<close>, as a value and inside \<^verbatim>\<open>+\<close>.\<close>

definition js_of :: "string option \<Rightarrow> jsval" where
  "js_of s = (case s of None \<Rightarrow> Undefined | Some x \<Rightarrow> Str x)"

definition str_of :: "string option \<Rightarrow> string" where
  "str_of s = (case s of None \<Rightarrow> ''undefined'' | Some x \<Rightarrow> x)"

text \<open>\<^verbatim>\<open>!s\<close> for a string that may be \<^verbatim>\<open>undefined\<close>.\<close>

definition falsy :: "string option \<Rightarrow> bool" where
  "falsy s = (case s of None \<Rightarrow> True | Some x \<Rightarrow> x = [])"

text \<open>\<^verbatim>\<open>Array.prototype.join\<close> on an array of strings.\<close>

fun join :: "string \<Rightarrow> string list \<Rightarrow> string" where
  "join sep [] = []"
| "join sep [x] = x"
| "join sep (x # y # ys) = x @ sep @ join sep (y # ys)"

section \<open>Constants\<close>

text \<open>
  \<^verbatim>\<open>./constants\<close> is imported by the module and is not part of the sources at hand: its
  three values are parameters of the model.
\<close>

record constants =
  EMPLOYEES_REALM :: string
  AUTHORIZATION_CODE_GRANT :: string
  PASSWORD_CREDENTIALS_GRANT :: string

definition AUTHORIZATION_HEADER_FIELD_NAME :: string where
  "AUTHORIZATION_HEADER_FIELD_NAME = ''authorization''"

definition USER_JSON :: string where
  "USER_JSON = ''user.json''"

definition CLIENT_JSON :: string where
  "CLIENT_JSON = ''client.json''"

definition OAUTH_CONTENT_TYPE :: string where
  "OAUTH_CONTENT_TYPE = ''application/x-www-form-urlencoded''"

text \<open>The three codes of the \<^verbatim>\<open>http-status\<close> package the module uses.\<close>

definition HttpStatus_OK :: int where
  "HttpStatus_OK = 200"

definition HttpStatus_UNAUTHORIZED :: int where
  "HttpStatus_UNAUTHORIZED = 401"

definition HttpStatus_FORBIDDEN :: int where
  "HttpStatus_FORBIDDEN = 403"

section \<open>createAuthCodeRequestUri\<close>

definition createAuthCodeRequestUri :: "constants \<Rightarrow> string \<Rightarrow> string \<Rightarrow> string \<Rightarrow> string" where
  "createAuthCodeRequestUri K authorizationEndpoint clientId redirectUri =
     authorizationEndpoint @
     ''?client_id='' @ clientId @
     ''&redirect_uri='' @ redirectUri @
     ''&response_type=code'' @
     ''&realm='' @ EMPLOYEES_REALM K"

section \<open>Outbound requests and promises\<close>

text \<open>
  The body of an outbound request is what \<^verbatim>\<open>form-urlencoded\<close> makes of the body object;
  the package is external, so its result is the constructor applied to the object's
  properties.
\<close>

datatype form_body = formurlencoded "(string \<times> jsval) list"

record fetch_request =
  url :: string
  http_method :: string
  body :: "form_body option"
  headers :: "(string \<times> string) list"

text \<open>
  What the endpoint answers: an HTTP status and the outcome of \<^verbatim>\<open>response.json()\<close>,
  which is the parsed body (\<open>Inr\<close>) or the error it rejects with (\<open>Inl\<close>).
\<close>

record response =
  status :: int
  json :: "jsval + jsval"

text \<open>
  What \<^verbatim>\<open>fetch\<close> does with a request: it gets a response, it rejects with an error
  (no response at all), or it never settles.
\<close>

datatype fetch_result = Responded response | Failed jsval | NoAnswer

datatype promise = Resolved jsval | Rejected jsval | Pending

text \<open>
  The world outside the module: the network, the file system, \<^verbatim>\<open>JSON.parse\<close>, and the
  helpers of \<^verbatim>\<open>./utils\<close> of which the specification gives no more than the purpose
  (pattern matching of a path, extraction of a bearer token, the scopes listed in an
  introspection result). \<open>getFileData\<close> is the outcome of the promise the helper
  returns: the file's text or the rejection value. \<open>client_rejects_first\<close> says which
  rejection \<^verbatim>\<open>Promise.all\<close> sees first when both reads fail.
\<close>

record world =
  fetch :: "fetch_request \<Rightarrow> fetch_result"
  getFileData :: "string option \<Rightarrow> string \<Rightarrow> jsval + string"
  client_rejects_first :: bool
  JSON_parse :: "string \<Rightarrow> jsval + jsval"
  fnmatch :: "string \<Rightarrow> string \<Rightarrow> bool"
  extractAccessToken :: "string option \<Rightarrow> string option"
  grantedScopes :: "jsval \<Rightarrow> string list option"

section \<open>requestAccessToken and getTokenInfo\<close>

text \<open>
  Both functions handle the response with the same two callbacks. The inner
  \<^verbatim>\<open>.then\<close> throws \<^verbatim>\<open>{ status, data }\<close> when the status is not 200 and resolves the
  outer promise with \<open>data\<close> otherwise; a body that is not JSON makes
  \<^verbatim>\<open>response.json()\<close> reject first.
\<close>

definition on_response :: "response \<Rightarrow> jsval + jsval" where
  "on_response r =
     (case json r of
        Inl e \<Rightarrow> Inl e
      | Inr data \<Rightarrow>
          if status r \<noteq> HttpStatus_OK
          then Inl (Obj [(''status'', Num (status r)), (''data'', data)])
          else Inr data)"

text \<open>The \<^verbatim>\<open>.catch\<close> callback rejects the outer promise with \<^verbatim>\<open>{ msg, err }\<close>.\<close>

definition on_catch :: "string \<Rightarrow> jsval \<Rightarrow> promise" where
  "on_catch msg err = Rejected (Obj [(''msg'', Str msg), (''err'', err)])"

definition settle :: "string \<Rightarrow> fetch_result \<Rightarrow> promise" where
  "settle msg fr =
     (case fr of
        NoAnswer \<Rightarrow> Pending
      | Failed e \<Rightarrow> on_catch msg e
      | Responded r \<Rightarrow>
          (case on_response r of
             Inl thrown \<Rightarrow> on_catch msg thrown
           | Inr data \<Rightarrow> Resolved data))"

text \<open>Each function returns its promise and the requests it sent.\<close>

definition access_token_request ::
  "(string \<times> jsval) list \<Rightarrow> string \<Rightarrow> string \<Rightarrow> string \<Rightarrow> fetch_request" where
  "access_token_request bodyObject authorizationHeaderValue accessTokenEndpoint realm =
     \<lparr>url = accessTokenEndpoint @ ''?realm='' @ realm,
      http_method = ''POST'',
      body = Some (formurlencoded bodyObject),
      headers = [(''Authorization'', authorizationHeaderValue),
                 (''Content-Type'', OAUTH_CONTENT_TYPE)]\<rparr>"

definition requestAccessToken ::
  "world \<Rightarrow> (string \<times> jsval) list \<Rightarrow> string \<Rightarrow> string \<Rightarrow> string \<Rightarrow> promise \<times> fetch_request list" where
  "requestAccessToken W bodyObject authorizationHeaderValue accessTokenEndpoint realm =
     (let rq = access_token_request bodyObject authorizationHeaderValue accessTokenEndpoint realm
      in (settle (''Error requesting access token from '' @ accessTokenEndpoint) (fetch W rq), [rq]))"

definition token_info_request :: "string \<Rightarrow> string \<Rightarrow> fetch_request" where
  "token_info_request tokenInfoUrl accessToken =
     \<lparr>url = tokenInfoUrl @ ''?access_token='' @ accessToken,
      http_method = ''GET'',
      body = None,
      headers = []\<rparr>"

definition getTokenInfo :: "world \<Rightarrow> string \<Rightarrow> string \<Rightarrow> promise \<times> fetch_request list" where
  "getTokenInfo W tokenInfoUrl accessToken =
     (let rq = token_info_request tokenInfoUrl accessToken
      in (settle (''Error requesting tokeninfo from '' @ tokenInfoUrl) (fetch W rq), [rq]))"

section \<open>getAccessToken\<close>

record oauth_options =
  credentialsDir :: "string option"
  grantType :: "string option"
  accessTokenEndpoint :: "string option"
  realm :: "string option"
  scopes :: "string list option"
  redirectUri :: "string option"
  code :: "string option"

text \<open>
  Modelled from the spec: \<^verbatim>\<open>validateOAuthConfig\<close> of \<^verbatim>\<open>./utils\<close> is missing from
  the sources. The specification says the token acquirer "validates that all
  grant-type-mandatory fields are present; fails with a ConfigurationError if not (e.g.,
  missing ... fields, or an unrecognized grantType)", that a GrantRequest carries realm,
  accessTokenEndpoint and credentialsDir, scopes for the password grant and code and
  redirectUri for the authorization-code grant, and that a configuration error is of the
  \<^verbatim>\<open>TypeError\<close> class. \<open>None\<close> is a return without an exception.
\<close>

definition validateOAuthConfig :: "constants \<Rightarrow> oauth_options \<Rightarrow> jsval option" where
  "validateOAuthConfig K options =
     (if credentialsDir options = None then Some (Error ''TypeError'' ''credentialsDir must be defined'')
      else if accessTokenEndpoint options = None then Some (Error ''TypeError'' ''accessTokenEndpoint must be defined'')
      else if realm options = None then Some (Error ''TypeError'' ''realm must be defined'')
      else if grantType options = Some (PASSWORD_CREDENTIALS_GRANT K) then
        (if scopes options = None then Some (Error ''TypeError'' ''scopes must be defined'') else None)
      else if grantType options = Some (AUTHORIZATION_CODE_GRANT K) then
        (if code options = None then Some (Error ''TypeError'' ''code must be defined'')
         else if redirectUri options = None then Some (Error ''TypeError'' ''redirectUri must be defined'')
         else None)
      else Some (Error ''TypeError'' ''invalid grantType''))"

subsection \<open>The Basic-Auth header\<close>

definition b64chars :: string where
  "b64chars = ''ABCDEFGHIJKLMNOPQRSTUVWXYZabcdefghijklmnopqrstuvwxyz0123456789+/''"

definition b64 :: "nat \<Rightarrow> char" where
  "b64 n = b64chars ! (n mod 64)"

fun base64_bytes :: "nat list \<Rightarrow> string" where
  "base64_bytes (a # b # c # r) =
     (let n = a * 65536 + b * 256 + c
      in [b64 (n div 262144), b64 (n div 4096), b64 (n div 64), b64 n]) @ base64_bytes r"
| "base64_bytes [a, b] =
     (let n = a * 65536 + b * 256
      in [b64 (n div 262144), b64 (n div 4096), b64 (n div 64), CHR ''=''])"
| "base64_bytes [a] =
     (let n = a * 65536
      in [b64 (n div 262144), b64 (n div 4096), CHR ''='', CHR ''=''])"
| "base64_bytes [] = []"

definition base64 :: "string \<Rightarrow> string" where
  "base64 s = base64_bytes (map of_char s)"

text \<open>The text of a value inside a string concatenation; numbers are integers here.\<close>

fun dec :: "nat \<Rightarrow> string" where
  "dec n = (if n < 10 then [char_of (48 + n)] else dec (n div 10) @ [char_of (48 + n mod 10)])"

declare dec.simps [simp del]

fun js_string :: "jsval \<Rightarrow> string" where
  "js_string Undefined = ''undefined''"
| "js_string Null = ''null''"
| "js_string (Bool b) = (if b then ''true'' else ''false'')"
| "js_string (Num n) = (if n < 0 then ''-'' @ dec (nat (- n)) else dec (nat n))"
| "js_string (Str s) = s"
| "js_string (Arr xs) =
     join '','' (map (\<lambda>x. if x = Undefined \<or> x = Null then [] else js_string x) xs)"
| "js_string (Obj kvs) = ''[object Object]''"
| "js_string (Error n m) = (if m = [] then n else n @ '': '' @ m)"

text \<open>
  Modelled from the spec: \<^verbatim>\<open>getBasicAuthHeaderValue\<close> of \<^verbatim>\<open>./utils\<close> is missing from
  the sources. The specification says it "builds a Basic-Auth header value from client
  id/secret", namely \<^verbatim>\<open>Basic base64(clientId:clientSecret)\<close>.
\<close>

definition getBasicAuthHeaderValue :: "jsval \<Rightarrow> jsval \<Rightarrow> string" where
  "getBasicAuthHeaderValue clientId clientSecret =
     ''Basic '' @ base64 (js_string clientId @ '':'' @ js_string clientSecret)"

subsection \<open>The grant-specific body and the token request\<close>

definition bodyParameters :: "constants \<Rightarrow> oauth_options \<Rightarrow> jsval \<Rightarrow> jsval + (string \<times> jsval) list" where
  "bodyParameters K options userData =
     (if grantType options = Some (PASSWORD_CREDENTIALS_GRANT K) then
        (case get_prop userData ''application_username'' of
           Inl e \<Rightarrow> Inl e
         | Inr username \<Rightarrow>
        (case get_prop userData ''application_password'' of
           Inl e \<Rightarrow> Inl e
         | Inr password \<Rightarrow>
        (case scopes options of
           None \<Rightarrow> Inl (Error ''TypeError'' ''Cannot read property join of undefined'')
         | Some ss \<Rightarrow>
             Inr [(''grant_type'', js_of (grantType options)),
                  (''username'', username),
                  (''password'', password),
                  (''scope'', Str (join '' '' ss))])))
      else if grantType options = Some (AUTHORIZATION_CODE_GRANT K) then
        Inr [(''grant_type'', js_of (grantType options)),
             (''code'', js_of (code options)),
             (''redirect_uri'', js_of (redirectUri options))]
      else Inl (Error ''TypeError'' ''invalid grantType''))"

text \<open>
  The callback given to \<^verbatim>\<open>.then\<close> after both credential files were read: \<open>Inl\<close> is
  what it throws, \<open>Inr\<close> the promise of \<open>requestAccessToken\<close> it returns.
\<close>

definition credentials_then ::
  "constants \<Rightarrow> world \<Rightarrow> oauth_options \<Rightarrow> string \<Rightarrow> string \<Rightarrow> jsval + (promise \<times> fetch_request list)" where
  "credentials_then K W options c0 c1 =
     (case JSON_parse W c0 of
        Inl e \<Rightarrow> Inl e
      | Inr userData \<Rightarrow>
     (case JSON_parse W c1 of
        Inl e \<Rightarrow> Inl e
      | Inr clientData \<Rightarrow>
     (case bodyParameters K options userData of
        Inl e \<Rightarrow> Inl e
      | Inr bp \<Rightarrow>
     (case get_prop clientData ''client_id'' of
        Inl e \<Rightarrow> Inl e
      | Inr client_id \<Rightarrow>
     (case get_prop clientData ''client_secret'' of
        Inl e \<Rightarrow> Inl e
      | Inr client_secret \<Rightarrow>
          Inr (requestAccessToken W bp (getBasicAuthHeaderValue client_id client_secret)
                 (str_of (accessTokenEndpoint options)) (str_of (realm options))))))))"

text \<open>\<^verbatim>\<open>Promise.all\<close> of two promises that settle.\<close>

definition Promise_all :: "bool \<Rightarrow> jsval + 'a \<Rightarrow> jsval + 'a \<Rightarrow> jsval + ('a \<times> 'a)" where
  "Promise_all second_first p0 p1 =
     (case (p0, p1) of
        (Inr a, Inr b) \<Rightarrow> Inr (a, b)
      | (Inl e, Inr b) \<Rightarrow> Inl e
      | (Inr a, Inl e) \<Rightarrow> Inl e
      | (Inl e0, Inl e1) \<Rightarrow> Inl (if second_first then e1 else e0))"

text \<open>
  A call either throws before a promise exists or returns a promise. The validation
  helper is an argument of \<open>getAccessToken_with\<close>, so that what the function does after
  it can be stated for every such helper; \<open>getAccessToken\<close> uses the modelled one.
\<close>

datatype call_result = Threw jsval | Returned promise

definition getAccessToken_with ::
  "(oauth_options \<Rightarrow> jsval option) \<Rightarrow> constants \<Rightarrow> world \<Rightarrow> oauth_options
     \<Rightarrow> call_result \<times> fetch_request list" where
  "getAccessToken_with validate K W options =
     (case validate options of
        Some e \<Rightarrow> (Threw e, [])
      | None \<Rightarrow>
          (case Promise_all (client_rejects_first W)
                  (getFileData W (credentialsDir options) USER_JSON)
                  (getFileData W (credentialsDir options) CLIENT_JSON) of
             Inl e \<Rightarrow> (Returned (Rejected e), [])
           | Inr (c0, c1) \<Rightarrow>
               (case credentials_then K W options c0 c1 of
                  Inl e \<Rightarrow> (Returned (Rejected e), [])
                | Inr (p, rqs) \<Rightarrow> (Returned p, rqs))))"

definition getAccessToken :: "constants \<Rightarrow> world \<Rightarrow> oauth_options \<Rightarrow> call_result \<times> fetch_request list" where
  "getAccessToken K W options = getAccessToken_with (validateOAuthConfig K) K W options"

section \<open>The request, the store and the response\<close>

text \<open>
  Arrays and \<^verbatim>\<open>Set\<close>s are objects with an identity: a request refers to the array of its
  scopes, the middleware of \<open>requireScopesMiddleware\<close> to the array of required scopes
  it was made with. They live in a store; \<open>nxt\<close> is the first address not yet given
  out. A \<^verbatim>\<open>Set\<close> keeps its elements once each, in insertion order.
\<close>

type_synonym addr = nat

datatype heap_obj = ArrayObj "string list" | SetObj "string list"

record store =
  objs :: "addr \<Rightarrow> heap_obj option"
  nxt :: addr

definition alloc :: "heap_obj \<Rightarrow> store \<Rightarrow> addr \<times> store" where
  "alloc ob st = (nxt st, st\<lparr>objs := (objs st)(nxt st \<mapsto> ob), nxt := Suc (nxt st)\<rparr>)"

text \<open>
  \<^verbatim>\<open>ref || []\<close> read as a sequence: the elements of the array (an array is truthy
  even when empty), nothing for \<^verbatim>\<open>undefined\<close>.
\<close>

definition elements_or_empty :: "store \<Rightarrow> addr option \<Rightarrow> string list" where
  "elements_or_empty st r =
     (case r of
        None \<Rightarrow> []
      | Some a \<Rightarrow>
          (case objs st a of
             Some (ArrayObj xs) \<Rightarrow> xs
           | Some (SetObj xs) \<Rightarrow> xs
           | None \<Rightarrow> []))"

definition Set_add :: "string list \<Rightarrow> string \<Rightarrow> string list" where
  "Set_add s x = (if x \<in> set s then s else s @ [x])"

definition new_Set :: "string list \<Rightarrow> store \<Rightarrow> addr \<times> store" where
  "new_Set xs st = alloc (SetObj (foldl Set_add [] xs)) st"

definition Set_delete :: "addr \<Rightarrow> string \<Rightarrow> store \<Rightarrow> store" where
  "Set_delete a x st =
     (case objs st a of
        Some (SetObj s) \<Rightarrow> st\<lparr>objs := (objs st)(a \<mapsto> SetObj (removeAll x s))\<rparr>
      | _ \<Rightarrow> st)"

definition Set_values :: "store \<Rightarrow> addr \<Rightarrow> string list" where
  "Set_values st a = (case objs st a of Some (SetObj s) \<Rightarrow> s | _ \<Rightarrow> [])"

definition Set_size :: "store \<Rightarrow> addr \<Rightarrow> nat" where
  "Set_size st a = length (Set_values st a)"

record express_req =
  originalUrl :: string
  req_headers :: "(string \<times> string) list"
  req_scopes :: "addr option"

text \<open>
  What a middleware does to the pipeline and the response, in order: it calls
  \<^verbatim>\<open>next()\<close>, it ends the response with a status, it sends a request of its own.
\<close>

datatype event = Next | SendStatus int | Fetch fetch_request

text \<open>
  Modelled from the spec: \<^verbatim>\<open>rejectRequest\<close> of \<^verbatim>\<open>./utils\<close> is missing from the
  sources. The specification says it "issues a rejection response with a status code",
  with "the failure's HTTP status if present, else a default unauthorized status"; the
  comments of the two middleware functions say the same ("rejected (with 401
  Unauthorized)" where no status is passed, "(with 403 Forbidden)" where
  \<^verbatim>\<open>HttpStatus.FORBIDDEN\<close> is). The argument is the status the caller passes,
  \<^verbatim>\<open>undefined\<close> when it passes none.
\<close>

definition rejectRequest :: "jsval \<Rightarrow> event" where
  "rejectRequest st = (case st of Num n \<Rightarrow> SendStatus n | _ \<Rightarrow> SendStatus HttpStatus_UNAUTHORIZED)"

text \<open>
  Modelled from the spec: \<^verbatim>\<open>getHeaderValue\<close> of \<^verbatim>\<open>./utils\<close> is missing from the
  sources. The specification says the middleware "reads an authorization header" of the
  request.
\<close>

definition getHeaderValue :: "express_req \<Rightarrow> string \<Rightarrow> string option" where
  "getHeaderValue req fieldName = map_of (req_headers req) fieldName"

text \<open>
  Modelled from the spec: \<^verbatim>\<open>match\<close> of \<^verbatim>\<open>./utils\<close> is missing from the sources. The
  specification says it "matches a URL against a list of public path patterns" and that
  a path is public when it "matches any pattern"; what one pattern matches is left to
  \<open>fnmatch\<close>.
\<close>

definition match :: "world \<Rightarrow> string \<Rightarrow> string list \<Rightarrow> bool" where
  "match W u patterns = list_ex (\<lambda>p. fnmatch W p u) patterns"

text \<open>
  Modelled from the spec: \<^verbatim>\<open>setScopes\<close> of \<^verbatim>\<open>./utils\<close> is missing from the sources.
  The specification says that on success the middleware is to "attach the returned scopes
  to the request's scoped state"; which scopes an introspection result lists is left to
  \<open>grantedScopes\<close>.
\<close>

definition setScopes :: "world \<Rightarrow> express_req \<Rightarrow> jsval \<Rightarrow> store \<Rightarrow> express_req \<times> store" where
  "setScopes W req data st =
     (case grantedScopes W data of
        None \<Rightarrow> (req\<lparr>req_scopes := None\<rparr>, st)
      | Some xs \<Rightarrow> (let (a, st') = alloc (ArrayObj xs) st in (req\<lparr>req_scopes := Some a\<rparr>, st')))"

section \<open>requireScopesMiddleware\<close>

text \<open>
  \<open>scopes_ref\<close> is the reference to the array \<^verbatim>\<open>scopes\<close> the middleware was made
  with. The loop runs over the
  elements of \<open>userScopes\<close>, an object the loop body never writes to, so they are
  read once.
\<close>

definition requireScopesMiddleware ::
  "addr option \<Rightarrow> express_req \<Rightarrow> store \<Rightarrow> event list \<times> express_req \<times> store" where
  "requireScopesMiddleware scopes_ref req st0 =
     (let (userScopes, st1) = new_Set (elements_or_empty st0 (req_scopes req)) st0;
          (scopesCopy, st2) = new_Set (elements_or_empty st1 scopes_ref) st1;
          st3 = fold (\<lambda>scope st. Set_delete scopesCopy scope st) (Set_values st2 userScopes) st2
      in if Set_size st3 scopesCopy = 0
         then ([Next], req, st3)
         else ([rejectRequest (Num HttpStatus_FORBIDDEN)], req, st3))"

section \<open>handleOAuthRequestMiddleware\<close>

record middleware_options =
  tokenInfoEndpoint :: "string option"
  publicEndpoints :: "string list option"

text \<open>\<^verbatim>\<open>options.publicEndpoints && match(req.originalUrl, options.publicEndpoints)\<close>\<close>

definition is_public :: "world \<Rightarrow> middleware_options \<Rightarrow> express_req \<Rightarrow> bool" where
  "is_public W options req =
     (case publicEndpoints options of
        None \<Rightarrow> False
      | Some patterns \<Rightarrow> match W (originalUrl req) patterns)"

text \<open>
  The \<^verbatim>\<open>.catch\<close> callback of the middleware: \<^verbatim>\<open>rejectRequest(res, err.status)\<close>.
  Should reading the property throw, nothing is sent.
\<close>

definition on_introspection_failure :: "jsval \<Rightarrow> event list" where
  "on_introspection_failure err =
     (case get_prop err ''status'' of
        Inl e \<Rightarrow> []
      | Inr st \<Rightarrow> [rejectRequest st])"

definition oauth_middleware ::
  "world \<Rightarrow> middleware_options \<Rightarrow> express_req \<Rightarrow> store \<Rightarrow> event list \<times> express_req \<times> store" where
  "oauth_middleware W options req st =
     (if is_public W options req then ([Next], req, st)
      else
        (let accessToken = extractAccessToken W (getHeaderValue req AUTHORIZATION_HEADER_FIELD_NAME)
         in if falsy accessToken then ([rejectRequest Undefined], req, st)
            else
              (case getTokenInfo W (str_of (tokenInfoEndpoint options)) (str_of accessToken) of
                 (Resolved data, rqs) \<Rightarrow>
                   (let (req', st') = setScopes W req data st
                    in (map Fetch rqs @ [Next], req', st'))
               | (Rejected err, rqs) \<Rightarrow> (map Fetch rqs @ on_introspection_failure err, req, st)
               | (Pending, rqs) \<Rightarrow> (map Fetch rqs, req, st))))"

definition handleOAuthRequestMiddleware ::
  "world \<Rightarrow> middleware_options
     \<Rightarrow> jsval + (express_req \<Rightarrow> store \<Rightarrow> event list \<times> express_req \<times> store)" where
  "handleOAuthRequestMiddleware W options =
     (if falsy (tokenInfoEndpoint options)
      then Inl (Error ''TypeError'' ''tokenInfoEndpoint must be defined'')
      else Inr (oauth_middleware W options))"

text \<open>A reference is usable in a store when its address was given out before.\<close>

definition ref_ok :: "store \<Rightarrow> addr option \<Rightarrow> bool" where
  "ref_ok st r = (case r of None \<Rightarrow> True | Some a \<Rightarrow> a < nxt st)"

section \<open>Example inputs\<close>

text \<open>
  The inputs the theorems below are run on: values for the three constants, a
  credentials directory with the two files, an endpoint that answers every request in
  the same way, the options of the repository's integration test.
\<close>

definition example_constants :: constants where
  "example_constants =
     \<lparr>EMPLOYEES_REALM = ''/employees'',
      AUTHORIZATION_CODE_GRANT = ''authorization_code'',
      PASSWORD_CREDENTIALS_GRANT = ''password''\<rparr>"

definition example_files :: "string option \<Rightarrow> string \<Rightarrow> jsval + string" where
  "example_files dir fileName =
     (if dir = Some ''credentials'' \<and> fileName = ''user.json''
        then Inr ''{ application_username: alice, application_password: wonderland }''
      else if dir = Some ''credentials'' \<and> fileName = ''client.json''
        then Inr ''{ client_id: id, client_secret: secret }''
      else Inl (Error ''Error'' ''ENOENT: no such file or directory''))"

definition example_parse :: "string \<Rightarrow> jsval + jsval" where
  "example_parse text =
     (if text = ''{ application_username: alice, application_password: wonderland }''
        then Inr (Obj [(''application_username'', Str ''alice''), (''application_password'', Str ''wonderland'')])
      else if text = ''{ client_id: id, client_secret: secret }''
        then Inr (Obj [(''client_id'', Str ''id''), (''client_secret'', Str ''secret'')])
      else Inl (Error ''SyntaxError'' ''Unexpected token''))"

definition example_extract :: "string option \<Rightarrow> string option" where
  "example_extract h =
     (case h of
        None \<Rightarrow> None
      | Some v \<Rightarrow> if take 7 v = ''Bearer '' then Some (drop 7 v) else None)"

definition example_granted :: "jsval \<Rightarrow> string list option" where
  "example_granted d =
     (case d of
        Obj kvs \<Rightarrow> (case map_of kvs ''scope'' of Some (Arr xs) \<Rightarrow> Some (map js_string xs) | _ \<Rightarrow> None)
      | _ \<Rightarrow> None)"

definition example_world :: "fetch_result \<Rightarrow> world" where
  "example_world answer =
     \<lparr>fetch = (\<lambda>rq. answer),
      getFileData = example_files,
      client_rejects_first = False,
      JSON_parse = example_parse,
      fnmatch = (\<lambda>p u. p = u),
      extractAccessToken = example_extract,
      grantedScopes = example_granted\<rparr>"

definition example_options :: oauth_options where
  "example_options =
     \<lparr>credentialsDir = Some ''credentials'',
      grantType = Some ''password'',
      accessTokenEndpoint = Some ''http://127.0.0.1:30001/oauth2/access_token'',
      realm = Some ''/services'',
      scopes = Some [''campaing.edit_all'', ''campaign.read_all''],
      redirectUri = None,
      code = None\<rparr>"

definition example_code_options :: oauth_options where
  "example_code_options =
     \<lparr>credentialsDir = Some ''credentials'',
      grantType = Some ''authorization_code'',
      accessTokenEndpoint = Some ''http://127.0.0.1:30001/oauth2/access_token'',
      realm = Some ''/employees'',
      scopes = None,
      redirectUri = Some ''https://app.example/callback'',
      code = Some ''c0de''\<rparr>"

definition example_store :: store where
  "example_store =
     \<lparr>objs = [0 \<mapsto> ArrayObj [''A'', ''B''],
              1 \<mapsto> ArrayObj [''A'', ''B'', ''C''],
              2 \<mapsto> ArrayObj [''A'']],
      nxt = 3\<rparr>"

definition example_req :: "(string \<times> string) list \<Rightarrow> addr option \<Rightarrow> express_req" where
  "example_req hs r = \<lparr>originalUrl = ''/campaigns'', req_headers = hs, req_scopes = r\<rparr>"

definition example_middleware_options :: middleware_options where
  "example_middleware_options =
     \<lparr>tokenInfoEndpoint = Some ''https://auth.example/tokeninfo'',
      publicEndpoints = Some [''/health'', ''/campaigns'']\<rparr>"

definition token_answer :: fetch_result where
  "token_answer =
     Responded \<lparr>status = 200, json = Inr (Obj [(''access_token'', Str ''4b70510f-be1d-4f0f-b4cb-edbca2c79d41'')])\<rparr>"

definition forbidden_answer :: fetch_result where
  "forbidden_answer =
     Responded \<lparr>status = 403, json = Inr (Obj [(''error'', Str ''invalid_token'')])\<rparr>"


section \<open>createAuthCodeRequestUri: the request URI\<close>

text \<open>
  C10. For all arguments, \<open>createAuthCodeRequestUri\<close> returns the concatenation of the
  authorization endpoint, \<^verbatim>\<open>?client_id=\<close>, the client id, \<^verbatim>\<open>&redirect_uri=\<close>, the
  redirect URI, \<^verbatim>\<open>&response_type=code\<close>, \<^verbatim>\<open>&realm=\<close> and the employees realm
  constant; in particular the result always ends with the realm parameter set to that
  constant, whatever the caller passes.
\<close>

theorem createAuthCodeRequestUri_concat:
  "createAuthCodeRequestUri K authorizationEndpoint clientId redirect =
     concat [authorizationEndpoint, ''?client_id='', clientId, ''&redirect_uri='', redirect,
             ''&response_type=code'', ''&realm='', EMPLOYEES_REALM K]
   \<and> suffix (''&realm='' @ EMPLOYEES_REALM K)
        (createAuthCodeRequestUri K authorizationEndpoint clientId redirect)"
proof
  show "createAuthCodeRequestUri K authorizationEndpoint clientId redirect =
     concat [authorizationEndpoint, ''?client_id='', clientId, ''&redirect_uri='', redirect,
             ''&response_type=code'', ''&realm='', EMPLOYEES_REALM K]"
    by (simp add: createAuthCodeRequestUri_def)
next
  have "createAuthCodeRequestUri K authorizationEndpoint clientId redirect =
        (authorizationEndpoint @ ''?client_id='' @ clientId @ ''&redirect_uri='' @ redirect @
         ''&response_type=code'') @ (''&realm='' @ EMPLOYEES_REALM K)"
    by (simp add: createAuthCodeRequestUri_def)
  then show "suffix (''&realm='' @ EMPLOYEES_REALM K)
        (createAuthCodeRequestUri K authorizationEndpoint clientId redirect)"
    unfolding suffix_def by blast
qed

section \<open>requestAccessToken and getTokenInfo: how the promise settles\<close>

lemma settle_ok:
  "status r = HttpStatus_OK \<Longrightarrow> json r = Inr d \<Longrightarrow> settle msg (Responded r) = Resolved d"
  by (simp add: settle_def on_response_def)

lemma settle_not_ok:
  "status r \<noteq> HttpStatus_OK \<Longrightarrow>
   settle msg (Responded r) =
     Rejected (Obj [(''msg'', Str msg),
                    (''err'', case json r of
                                Inl e \<Rightarrow> e
                              | Inr d \<Rightarrow> Obj [(''status'', Num (status r)), (''data'', d)])])"
  by (simp add: settle_def on_response_def on_catch_def split: sum.splits)

text \<open>
  C4. When the endpoint answers \<open>requestAccessToken\<close> or \<open>getTokenInfo\<close> with status
  200 exactly and a body that parses as JSON, the returned promise resolves with exactly
  that parsed body.
\<close>

theorem status_200_resolves_with_body:
  "(fetch W (access_token_request bodyObject authorizationHeaderValue endpoint rlm) = Responded r
      \<and> status r = HttpStatus_OK \<and> json r = Inr d
    \<longrightarrow> fst (requestAccessToken W bodyObject authorizationHeaderValue endpoint rlm) = Resolved d)
   \<and> (fetch W (token_info_request tokenInfoUrl accessToken) = Responded r
      \<and> status r = HttpStatus_OK \<and> json r = Inr d
    \<longrightarrow> fst (getTokenInfo W tokenInfoUrl accessToken) = Resolved d)"
  by (simp add: requestAccessToken_def getTokenInfo_def settle_ok)

theorem status_200_resolves_with_body_witness:
  "fst (requestAccessToken (example_world token_answer) [] ''Basic aWQ6c2VjcmV0''
          ''http://127.0.0.1:30001/oauth2/access_token'' ''/services'')
     = Resolved (Obj [(''access_token'', Str ''4b70510f-be1d-4f0f-b4cb-edbca2c79d41'')])
   \<and> fst (getTokenInfo (example_world token_answer) ''https://auth.example/tokeninfo'' ''tok'')
     = Resolved (Obj [(''access_token'', Str ''4b70510f-be1d-4f0f-b4cb-edbca2c79d41'')])"
  using status_200_resolves_with_body
    [of "example_world token_answer" "[]" "''Basic aWQ6c2VjcmV0''"
        "''http://127.0.0.1:30001/oauth2/access_token''" "''/services''"
        "\<lparr>status = 200, json = Inr (Obj [(''access_token'', Str ''4b70510f-be1d-4f0f-b4cb-edbca2c79d41'')])\<rparr>"
        "Obj [(''access_token'', Str ''4b70510f-be1d-4f0f-b4cb-edbca2c79d41'')]"
        "''https://auth.example/tokeninfo''" "''tok''"]
  by (simp add: example_world_def token_answer_def HttpStatus_OK_def)

text \<open>
  C1, as the code has it. When the endpoint answers \<open>requestAccessToken\<close> or
  \<open>getTokenInfo\<close> with a status other than 200, the returned promise rejects with the
  object \<^verbatim>\<open>{ msg, err }\<close>: \<open>msg\<close> names the endpoint, and \<open>err\<close> is
  \<^verbatim>\<open>{ status, data }\<close> with the status of the response and its parsed body, or the error
  of \<^verbatim>\<open>response.json()\<close> when the body is not JSON.
\<close>

theorem non_200_rejects_with_msg_err:
  "(fetch W (access_token_request bodyObject authorizationHeaderValue endpoint rlm) = Responded r
      \<and> status r \<noteq> HttpStatus_OK
    \<longrightarrow> fst (requestAccessToken W bodyObject authorizationHeaderValue endpoint rlm) =
          Rejected (Obj [(''msg'', Str (''Error requesting access token from '' @ endpoint)),
                         (''err'', case json r of
                                     Inl e \<Rightarrow> e
                                   | Inr d \<Rightarrow> Obj [(''status'', Num (status r)), (''data'', d)])]))
   \<and> (fetch W (token_info_request tokenInfoUrl accessToken) = Responded r
      \<and> status r \<noteq> HttpStatus_OK
    \<longrightarrow> fst (getTokenInfo W tokenInfoUrl accessToken) =
          Rejected (Obj [(''msg'', Str (''Error requesting tokeninfo from '' @ tokenInfoUrl)),
                         (''err'', case json r of
                                     Inl e \<Rightarrow> e
                                   | Inr d \<Rightarrow> Obj [(''status'', Num (status r)), (''data'', d)])]))"
  by (simp add: requestAccessToken_def getTokenInfo_def settle_not_ok)

theorem non_200_rejects_with_msg_err_witness:
  "fst (requestAccessToken (example_world forbidden_answer) [] ''Basic aWQ6c2VjcmV0''
          ''http://127.0.0.1:30001/oauth2/access_token'' ''/services'')
     = Rejected (Obj [(''msg'', Str ''Error requesting access token from http://127.0.0.1:30001/oauth2/access_token''),
                      (''err'', Obj [(''status'', Num 403),
                                     (''data'', Obj [(''error'', Str ''invalid_token'')])])])
   \<and> fst (getTokenInfo (example_world forbidden_answer) ''https://auth.example/tokeninfo'' ''tok'')
     = Rejected (Obj [(''msg'', Str ''Error requesting tokeninfo from https://auth.example/tokeninfo''),
                      (''err'', Obj [(''status'', Num 403),
                                     (''data'', Obj [(''error'', Str ''invalid_token'')])])])"
  using non_200_rejects_with_msg_err
    [of "example_world forbidden_answer" "[]" "''Basic aWQ6c2VjcmV0''"
        "''http://127.0.0.1:30001/oauth2/access_token''" "''/services''"
        "\<lparr>status = 403, json = Inr (Obj [(''error'', Str ''invalid_token'')])\<rparr>"
        "''https://auth.example/tokeninfo''" "''tok''"]
  by (simp add: example_world_def forbidden_answer_def HttpStatus_OK_def)

text \<open>
  C1, as stated, fails: with a 403 answer whose body is \<^verbatim>\<open>{ error: 'invalid_token' }\<close>
  neither promise rejects with \<^verbatim>\<open>{ status: 403, data: { error: 'invalid_token' } }\<close>
  itself.
\<close>

theorem rejection_is_not_status_data_counterexample:
  "fetch (example_world forbidden_answer) (token_info_request ''https://auth.example/tokeninfo'' ''tok'')
     = Responded \<lparr>status = 403, json = Inr (Obj [(''error'', Str ''invalid_token'')])\<rparr>
   \<and> fst (getTokenInfo (example_world forbidden_answer) ''https://auth.example/tokeninfo'' ''tok'')
     \<noteq> Rejected (Obj [(''status'', Num 403), (''data'', Obj [(''error'', Str ''invalid_token'')])])
   \<and> fst (requestAccessToken (example_world forbidden_answer) [] ''Basic aWQ6c2VjcmV0''
          ''http://127.0.0.1:30001/oauth2/access_token'' ''/services'')
     \<noteq> Rejected (Obj [(''status'', Num 403), (''data'', Obj [(''error'', Str ''invalid_token'')])])"
  by (simp add: example_world_def forbidden_answer_def getTokenInfo_def requestAccessToken_def
        settle_def on_response_def on_catch_def HttpStatus_OK_def)

section \<open>getAccessToken: an unrecognised grant type\<close>

lemma bodyParameters_invalid_grant:
  "grantType options \<noteq> Some (PASSWORD_CREDENTIALS_GRANT K) \<Longrightarrow>
   grantType options \<noteq> Some (AUTHORIZATION_CODE_GRANT K) \<Longrightarrow>
   bodyParameters K options userData = Inl (Error ''TypeError'' ''invalid grantType'')"
  by (simp add: bodyParameters_def)

lemma credentials_then_invalid_grant:
  assumes "grantType options \<noteq> Some (PASSWORD_CREDENTIALS_GRANT K)"
    and "grantType options \<noteq> Some (AUTHORIZATION_CODE_GRANT K)"
  shows "\<exists>e. credentials_then K W options c0 c1 = Inl e"
  using bodyParameters_invalid_grant [OF assms]
  by (simp add: credentials_then_def split: sum.splits)

lemma credentials_then_invalid_grant_parsed:
  assumes "grantType options \<noteq> Some (PASSWORD_CREDENTIALS_GRANT K)"
    and "grantType options \<noteq> Some (AUTHORIZATION_CODE_GRANT K)"
    and "JSON_parse W c0 = Inr userData" and "JSON_parse W c1 = Inr clientData"
  shows "credentials_then K W options c0 c1 = Inl (Error ''TypeError'' ''invalid grantType'')"
  using bodyParameters_invalid_grant [OF assms(1,2)] assms(3,4)
  by (simp add: credentials_then_def)

lemma validateOAuthConfig_invalid_grant:
  assumes "grantType options \<noteq> Some (PASSWORD_CREDENTIALS_GRANT K)"
    and "grantType options \<noteq> Some (AUTHORIZATION_CODE_GRANT K)"
  shows "\<exists>e. validateOAuthConfig K options = Some e \<and> is_TypeError e"
  using assms by (simp add: validateOAuthConfig_def is_TypeError_def)

lemma getAccessToken_with_invalid_grant:
  assumes "grantType options \<noteq> Some (PASSWORD_CREDENTIALS_GRANT K)"
    and "grantType options \<noteq> Some (AUTHORIZATION_CODE_GRANT K)"
  shows "\<exists>e. getAccessToken_with validate K W options = (Threw e, [])
            \<or> getAccessToken_with validate K W options = (Returned (Rejected e), [])"
proof (cases "validate options")
  case (Some e)
  then show ?thesis by (simp add: getAccessToken_with_def)
next
  case None
  show ?thesis
  proof (cases "Promise_all (client_rejects_first W)
                  (getFileData W (credentialsDir options) USER_JSON)
                  (getFileData W (credentialsDir options) CLIENT_JSON)")
    case (Inl e)
    with None show ?thesis by (simp add: getAccessToken_with_def)
  next
    case (Inr cs)
    obtain c0 c1 where cs: "cs = (c0, c1)" by (cases cs)
    obtain e where "credentials_then K W options c0 c1 = Inl e"
      using credentials_then_invalid_grant [OF assms] by blast
    with None Inr cs show ?thesis by (simp add: getAccessToken_with_def)
  qed
qed

lemma getAccessToken_with_invalid_grant_loaded:
  assumes "grantType options \<noteq> Some (PASSWORD_CREDENTIALS_GRANT K)"
    and "grantType options \<noteq> Some (AUTHORIZATION_CODE_GRANT K)"
    and "validate options = None"
    and "getFileData W (credentialsDir options) USER_JSON = Inr c0"
    and "getFileData W (credentialsDir options) CLIENT_JSON = Inr c1"
    and "JSON_parse W c0 = Inr userData" and "JSON_parse W c1 = Inr clientData"
  shows "getAccessToken_with validate K W options =
           (Returned (Rejected (Error ''TypeError'' ''invalid grantType'')), [])"
  using credentials_then_invalid_grant_parsed [OF assms(1,2,6,7)] assms(3,4,5)
  by (simp add: getAccessToken_with_def Promise_all_def)

text \<open>
  C2. When \<open>grantType\<close> is neither the password-credentials nor the
  authorization-code constant, \<open>getAccessToken\<close> fails with an error of the
  \<^verbatim>\<open>TypeError\<close> class and sends no request to the access-token endpoint. The failure
  is that of the validation as the specification describes it. Whatever the validation
  helper does, the call throws or its promise rejects, and no request is sent; and when
  that helper lets the options through and both credential files are read and parsed,
  the promise rejects with \<^verbatim>\<open>TypeError('invalid grantType')\<close>.
\<close>

theorem invalid_grantType_fails_before_request:
  assumes "grantType options \<noteq> Some (PASSWORD_CREDENTIALS_GRANT K)"
    and "grantType options \<noteq> Some (AUTHORIZATION_CODE_GRANT K)"
  shows "(\<exists>e. getAccessToken K W options = (Threw e, []) \<and> is_TypeError e)
       \<and> (\<exists>e. getAccessToken_with validate K W options = (Threw e, [])
             \<or> getAccessToken_with validate K W options = (Returned (Rejected e), []))
       \<and> (validate options = None
            \<and> getFileData W (credentialsDir options) USER_JSON = Inr c0
            \<and> getFileData W (credentialsDir options) CLIENT_JSON = Inr c1
            \<and> JSON_parse W c0 = Inr userData \<and> JSON_parse W c1 = Inr clientData
          \<longrightarrow> getAccessToken_with validate K W options =
                (Returned (Rejected (Error ''TypeError'' ''invalid grantType'')), []))"
proof (intro conjI impI)
  obtain e where "validateOAuthConfig K options = Some e" "is_TypeError e"
    using validateOAuthConfig_invalid_grant [OF assms] by blast
  then show "\<exists>e. getAccessToken K W options = (Threw e, []) \<and> is_TypeError e"
    by (simp add: getAccessToken_def getAccessToken_with_def)
next
  show "\<exists>e. getAccessToken_with validate K W options = (Threw e, [])
          \<or> getAccessToken_with validate K W options = (Returned (Rejected e), [])"
    by (rule getAccessToken_with_invalid_grant [OF assms])
next
  assume "validate options = None
            \<and> getFileData W (credentialsDir options) USER_JSON = Inr c0
            \<and> getFileData W (credentialsDir options) CLIENT_JSON = Inr c1
            \<and> JSON_parse W c0 = Inr userData \<and> JSON_parse W c1 = Inr clientData"
  then show "getAccessToken_with validate K W options =
                (Returned (Rejected (Error ''TypeError'' ''invalid grantType'')), [])"
    using getAccessToken_with_invalid_grant_loaded [OF assms] by blast
qed

theorem invalid_grantType_fails_before_request_witness:
  "grantType (example_options\<lparr>grantType := Some ''client_credentials''\<rparr>)
     \<noteq> Some (PASSWORD_CREDENTIALS_GRANT example_constants)
   \<and> grantType (example_options\<lparr>grantType := Some ''client_credentials''\<rparr>)
     \<noteq> Some (AUTHORIZATION_CODE_GRANT example_constants)
   \<and> (\<exists>e. getAccessToken example_constants (example_world token_answer)
             (example_options\<lparr>grantType := Some ''client_credentials''\<rparr>) = (Threw e, [])
          \<and> is_TypeError e)
   \<and> getAccessToken_with (\<lambda>_. None) example_constants (example_world token_answer)
        (example_options\<lparr>grantType := Some ''client_credentials''\<rparr>)
      = (Returned (Rejected (Error ''TypeError'' ''invalid grantType'')), [])"
  using invalid_grantType_fails_before_request
    [where options = "example_options\<lparr>grantType := Some ''client_credentials''\<rparr>"
       and K = example_constants and W = "example_world token_answer"
       and validate = "\<lambda>_. None"
       and ?c0.0 = "''{ application_username: alice, application_password: wonderland }''"
       and ?c1.0 = "''{ client_id: id, client_secret: secret }''"
       and userData = "Obj [(''application_username'', Str ''alice''), (''application_password'', Str ''wonderland'')]"
       and clientData = "Obj [(''client_id'', Str ''id''), (''client_secret'', Str ''secret'')]"]
  by (simp add: example_options_def example_constants_def example_world_def example_files_def
        example_parse_def USER_JSON_def CLIENT_JSON_def)

section \<open>getAccessToken: the token request\<close>

lemma credentials_then_password:
  assumes "grantType options = Some (PASSWORD_CREDENTIALS_GRANT K)"
    and "scopes options = Some ss"
    and "JSON_parse W c0 = Inr userData" and "JSON_parse W c1 = Inr clientData"
    and "get_prop userData ''application_username'' = Inr username"
    and "get_prop userData ''application_password'' = Inr password"
    and "get_prop clientData ''client_id'' = Inr client_id"
    and "get_prop clientData ''client_secret'' = Inr client_secret"
  shows "credentials_then K W options c0 c1 =
           Inr (requestAccessToken W
                  [(''grant_type'', Str (PASSWORD_CREDENTIALS_GRANT K)),
                   (''username'', username),
                   (''password'', password),
                   (''scope'', Str (join '' '' ss))]
                  (getBasicAuthHeaderValue client_id client_secret)
                  (str_of (accessTokenEndpoint options)) (str_of (realm options)))"
  using assms by (simp add: credentials_then_def bodyParameters_def js_of_def)

lemma credentials_then_authorization_code:
  assumes "grantType options \<noteq> Some (PASSWORD_CREDENTIALS_GRANT K)"
    and "grantType options = Some (AUTHORIZATION_CODE_GRANT K)"
    and "JSON_parse W c0 = Inr userData" and "JSON_parse W c1 = Inr clientData"
    and "get_prop clientData ''client_id'' = Inr client_id"
    and "get_prop clientData ''client_secret'' = Inr client_secret"
  shows "credentials_then K W options c0 c1 =
           Inr (requestAccessToken W
                  [(''grant_type'', Str (AUTHORIZATION_CODE_GRANT K)),
                   (''code'', js_of (code options)),
                   (''redirect_uri'', js_of (redirectUri options))]
                  (getBasicAuthHeaderValue client_id client_secret)
                  (str_of (accessTokenEndpoint options)) (str_of (realm options)))"
  using assms by (simp add: credentials_then_def bodyParameters_def js_of_def)

lemma getAccessToken_requests:
  assumes "validateOAuthConfig K options = None"
    and "getFileData W (credentialsDir options) USER_JSON = Inr c0"
    and "getFileData W (credentialsDir options) CLIENT_JSON = Inr c1"
    and "credentials_then K W options c0 c1 = Inr (requestAccessToken W bodyObject auth endpoint rlm)"
  shows "snd (getAccessToken K W options) = [access_token_request bodyObject auth endpoint rlm]"
  using assms
  by (simp add: getAccessToken_def getAccessToken_with_def Promise_all_def requestAccessToken_def
        Let_def)

text \<open>
  C5. For valid options whose credential files are read and parsed, \<open>getAccessToken\<close>
  sends exactly one request: a POST to \<^verbatim>\<open>accessTokenEndpoint?realm={realm}\<close> with the
  header \<^verbatim>\<open>Authorization: Basic base64(client_id:client_secret)\<close> built from the loaded
  client credentials, the header \<^verbatim>\<open>Content-Type: application/x-www-form-urlencoded\<close>,
  and the form-url-encoded body \<^verbatim>\<open>{grant_type, username, password, scope}\<close> (the scopes
  joined by a space) for the password-credentials grant and
  \<^verbatim>\<open>{grant_type, code, redirect_uri}\<close> for the authorization-code grant.
\<close>

theorem getAccessToken_issues_one_POST:
  assumes "validateOAuthConfig K options = None"
    and "getFileData W (credentialsDir options) USER_JSON = Inr c0"
    and "getFileData W (credentialsDir options) CLIENT_JSON = Inr c1"
    and "JSON_parse W c0 = Inr userData" and "JSON_parse W c1 = Inr clientData"
    and "get_prop clientData ''client_id'' = Inr client_id"
    and "get_prop clientData ''client_secret'' = Inr client_secret"
    and "accessTokenEndpoint options = Some endpoint" and "realm options = Some rlm"
  shows "(grantType options = Some (PASSWORD_CREDENTIALS_GRANT K)
            \<and> scopes options = Some ss
            \<and> get_prop userData ''application_username'' = Inr username
            \<and> get_prop userData ''application_password'' = Inr password
          \<longrightarrow> snd (getAccessToken K W options) =
                [\<lparr>url = endpoint @ ''?realm='' @ rlm,
                  http_method = ''POST'',
                  body = Some (formurlencoded
                           [(''grant_type'', Str (PASSWORD_CREDENTIALS_GRANT K)),
                            (''username'', username),
                            (''password'', password),
                            (''scope'', Str (join '' '' ss))]),
                  headers = [(''Authorization'',
                                ''Basic '' @ base64 (js_string client_id @ '':'' @ js_string client_secret)),
                             (''Content-Type'', ''application/x-www-form-urlencoded'')]\<rparr>])
       \<and> (grantType options \<noteq> Some (PASSWORD_CREDENTIALS_GRANT K)
            \<and> code options = Some cd \<and> redirectUri options = Some ru
          \<longrightarrow> grantType options = Some (AUTHORIZATION_CODE_GRANT K)
              \<and> snd (getAccessToken K W options) =
                [\<lparr>url = endpoint @ ''?realm='' @ rlm,
                  http_method = ''POST'',
                  body = Some (formurlencoded
                           [(''grant_type'', Str (AUTHORIZATION_CODE_GRANT K)),
                            (''code'', Str cd),
                            (''redirect_uri'', Str ru)]),
                  headers = [(''Authorization'',
                                ''Basic '' @ base64 (js_string client_id @ '':'' @ js_string client_secret)),
                             (''Content-Type'', ''application/x-www-form-urlencoded'')]\<rparr>])"
proof (intro conjI impI)
  assume pw: "grantType options = Some (PASSWORD_CREDENTIALS_GRANT K)
            \<and> scopes options = Some ss
            \<and> get_prop userData ''application_username'' = Inr username
            \<and> get_prop userData ''application_password'' = Inr password"
  have "credentials_then K W options c0 c1 =
           Inr (requestAccessToken W
                  [(''grant_type'', Str (PASSWORD_CREDENTIALS_GRANT K)),
                   (''username'', username),
                   (''password'', password),
                   (''scope'', Str (join '' '' ss))]
                  (getBasicAuthHeaderValue client_id client_secret)
                  (str_of (accessTokenEndpoint options)) (str_of (realm options)))"
    using pw assms(4-7) by (intro credentials_then_password) blast+
  from getAccessToken_requests [OF assms(1-3) this]
  show "snd (getAccessToken K W options) =
                [\<lparr>url = endpoint @ ''?realm='' @ rlm,
                  http_method = ''POST'',
                  body = Some (formurlencoded
                           [(''grant_type'', Str (PASSWORD_CREDENTIALS_GRANT K)),
                            (''username'', username),
                            (''password'', password),
                            (''scope'', Str (join '' '' ss))]),
                  headers = [(''Authorization'',
                                ''Basic '' @ base64 (js_string client_id @ '':'' @ js_string client_secret)),
                             (''Content-Type'', ''application/x-www-form-urlencoded'')]\<rparr>]"
    using assms(8,9)
    by (simp add: access_token_request_def getBasicAuthHeaderValue_def str_of_def OAUTH_CONTENT_TYPE_def)
next
  assume ac: "grantType options \<noteq> Some (PASSWORD_CREDENTIALS_GRANT K)
            \<and> code options = Some cd \<and> redirectUri options = Some ru"
  with assms(1) show g: "grantType options = Some (AUTHORIZATION_CODE_GRANT K)"
    by (simp add: validateOAuthConfig_def split: if_splits)
  have "credentials_then K W options c0 c1 =
           Inr (requestAccessToken W
                  [(''grant_type'', Str (AUTHORIZATION_CODE_GRANT K)),
                   (''code'', js_of (code options)),
                   (''redirect_uri'', js_of (redirectUri options))]
                  (getBasicAuthHeaderValue client_id client_secret)
                  (str_of (accessTokenEndpoint options)) (str_of (realm options)))"
    using ac g assms(4-7) by (intro credentials_then_authorization_code) blast+
  from getAccessToken_requests [OF assms(1-3) this]
  show "snd (getAccessToken K W options) =
                [\<lparr>url = endpoint @ ''?realm='' @ rlm,
                  http_method = ''POST'',
                  body = Some (formurlencoded
                           [(''grant_type'', Str (AUTHORIZATION_CODE_GRANT K)),
                            (''code'', Str cd),
                            (''redirect_uri'', Str ru)]),
                  headers = [(''Authorization'',
                                ''Basic '' @ base64 (js_string client_id @ '':'' @ js_string client_secret)),
                             (''Content-Type'', ''application/x-www-form-urlencoded'')]\<rparr>]"
    using assms(8,9) ac
    by (simp add: access_token_request_def getBasicAuthHeaderValue_def str_of_def js_of_def
          OAUTH_CONTENT_TYPE_def)
qed

theorem getAccessToken_issues_one_POST_witness:
  "snd (getAccessToken example_constants (example_world token_answer) example_options) =
     [\<lparr>url = ''http://127.0.0.1:30001/oauth2/access_token?realm=/services'',
       http_method = ''POST'',
       body = Some (formurlencoded
                [(''grant_type'', Str ''password''),
                 (''username'', Str ''alice''),
                 (''password'', Str ''wonderland''),
                 (''scope'', Str ''campaing.edit_all campaign.read_all'')]),
       headers = [(''Authorization'', ''Basic aWQ6c2VjcmV0''),
                  (''Content-Type'', ''application/x-www-form-urlencoded'')]\<rparr>]
   \<and> snd (getAccessToken example_constants (example_world token_answer) example_code_options) =
     [\<lparr>url = ''http://127.0.0.1:30001/oauth2/access_token?realm=/employees'',
       http_method = ''POST'',
       body = Some (formurlencoded
                [(''grant_type'', Str ''authorization_code''),
                 (''code'', Str ''c0de''),
                 (''redirect_uri'', Str ''https://app.example/callback'')]),
       headers = [(''Authorization'', ''Basic aWQ6c2VjcmV0''),
                  (''Content-Type'', ''application/x-www-form-urlencoded'')]\<rparr>]"
  using getAccessToken_issues_one_POST
    [where K = example_constants and W = "example_world token_answer" and options = example_options
       and ?c0.0 = "''{ application_username: alice, application_password: wonderland }''"
       and ?c1.0 = "''{ client_id: id, client_secret: secret }''"
       and userData = "Obj [(''application_username'', Str ''alice''), (''application_password'', Str ''wonderland'')]"
       and clientData = "Obj [(''client_id'', Str ''id''), (''client_secret'', Str ''secret'')]"
       and client_id = "Str ''id''" and client_secret = "Str ''secret''"
       and endpoint = "''http://127.0.0.1:30001/oauth2/access_token''" and rlm = "''/services''"
       and ss = "[''campaing.edit_all'', ''campaign.read_all'']"
       and username = "Str ''alice''" and password = "Str ''wonderland''"]
    getAccessToken_issues_one_POST
    [where K = example_constants and W = "example_world token_answer" and options = example_code_options
       and ?c0.0 = "''{ application_username: alice, application_password: wonderland }''"
       and ?c1.0 = "''{ client_id: id, client_secret: secret }''"
       and userData = "Obj [(''application_username'', Str ''alice''), (''application_password'', Str ''wonderland'')]"
       and clientData = "Obj [(''client_id'', Str ''id''), (''client_secret'', Str ''secret'')]"
       and client_id = "Str ''id''" and client_secret = "Str ''secret''"
       and endpoint = "''http://127.0.0.1:30001/oauth2/access_token''" and rlm = "''/employees''"
       and cd = "''c0de''" and ru = "''https://app.example/callback''"]
  by (simp add: example_options_def example_code_options_def example_constants_def
        example_world_def example_files_def example_parse_def USER_JSON_def CLIENT_JSON_def
        validateOAuthConfig_def base64_def b64_def b64chars_def)

section \<open>requireScopesMiddleware: scope enforcement\<close>

lemma set_foldl_Set_add: "set (foldl Set_add acc xs) = set acc \<union> set xs"
  by (induction xs arbitrary: acc) (auto simp: Set_add_def)

lemma set_fold_removeAll: "set (fold removeAll xs s) = set s - set xs"
  by (induction xs arbitrary: s) auto

lemma fold_Set_delete:
  "objs st a = Some (SetObj s) \<Longrightarrow>
   fold (\<lambda>x st. Set_delete a x st) xs st = st\<lparr>objs := (objs st)(a \<mapsto> SetObj (fold removeAll xs s))\<rparr>"
proof (induction xs arbitrary: st s)
  case Nil
  then show ?case by (simp add: fun_upd_idem)
next
  case (Cons x xs)
  have step: "Set_delete a x st = st\<lparr>objs := (objs st)(a \<mapsto> SetObj (removeAll x s))\<rparr>"
    using Cons.prems by (simp add: Set_delete_def)
  have "objs (Set_delete a x st) a = Some (SetObj (removeAll x s))"
    by (simp add: step)
  from Cons.IH [OF this] show ?case
    by (simp add: step fun_upd_def cong: if_cong)
qed

lemma elements_or_empty_alloc:
  "ref_ok st r \<Longrightarrow> elements_or_empty (snd (alloc ob st)) r = elements_or_empty st r"
  by (auto simp: ref_ok_def elements_or_empty_def alloc_def split: option.splits)

lemma requireScopesMiddleware_eq:
  assumes "ref_ok st0 scopes_ref"
  shows "requireScopesMiddleware scopes_ref req st0 =
     (let U = foldl Set_add [] (elements_or_empty st0 (req_scopes req));
          R = foldl Set_add [] (elements_or_empty st0 scopes_ref);
          D = fold removeAll U R
      in (if D = [] then [Next] else [SendStatus HttpStatus_FORBIDDEN],
          req,
          st0\<lparr>objs := (objs st0)(nxt st0 \<mapsto> SetObj U, Suc (nxt st0) \<mapsto> SetObj D),
              nxt := Suc (Suc (nxt st0))\<rparr>))"
proof -
  define U where "U = foldl Set_add [] (elements_or_empty st0 (req_scopes req))"
  define R where "R = foldl Set_add [] (elements_or_empty st0 scopes_ref)"
  define st1 where "st1 = st0\<lparr>objs := (objs st0)(nxt st0 \<mapsto> SetObj U), nxt := Suc (nxt st0)\<rparr>"
  define st2 where "st2 = st1\<lparr>objs := (objs st1)(Suc (nxt st0) \<mapsto> SetObj R), nxt := Suc (Suc (nxt st0))\<rparr>"
  have a1: "new_Set (elements_or_empty st0 (req_scopes req)) st0 = (nxt st0, st1)"
    by (simp add: new_Set_def alloc_def U_def st1_def)
  have "elements_or_empty st1 scopes_ref = elements_or_empty st0 scopes_ref"
    using elements_or_empty_alloc [OF assms, of "SetObj U"] by (simp add: alloc_def st1_def)
  then have a2: "new_Set (elements_or_empty st1 scopes_ref) st1 = (Suc (nxt st0), st2)"
    by (simp add: new_Set_def alloc_def R_def st2_def st1_def)
  have v: "Set_values st2 (nxt st0) = U"
    by (simp add: Set_values_def st2_def st1_def)
  have "objs st2 (Suc (nxt st0)) = Some (SetObj R)"
    by (simp add: st2_def)
  from fold_Set_delete [OF this]
  have f: "fold (\<lambda>scope st. Set_delete (Suc (nxt st0)) scope st) U st2 =
           st2\<lparr>objs := (objs st2)(Suc (nxt st0) \<mapsto> SetObj (fold removeAll U R))\<rparr>" .
  have sz: "Set_size (st2\<lparr>objs := (objs st2)(Suc (nxt st0) \<mapsto> SetObj (fold removeAll U R))\<rparr>) (Suc (nxt st0))
              = length (fold removeAll U R)"
    by (simp add: Set_size_def Set_values_def)
  show ?thesis
    unfolding requireScopesMiddleware_def a1 a2 Let_def prod.case v f sz
    by (simp add: U_def R_def st2_def st1_def rejectRequest_def)
qed

text \<open>
  C3. The middleware of \<open>requireScopesMiddleware\<close> calls \<^verbatim>\<open>next()\<close> if and only if
  every required scope is among the scopes attached to the request, an absent
  \<^verbatim>\<open>req.scopes\<close> counting as no scope at all; otherwise it rejects the request with
  403 Forbidden.
\<close>

theorem requireScopes_next_iff_contained:
  assumes "ref_ok st scopes_ref"
  shows "(fst (requireScopesMiddleware scopes_ref req st) = [Next]
            \<longleftrightarrow> set (elements_or_empty st scopes_ref) \<subseteq> set (elements_or_empty st (req_scopes req)))
       \<and> (\<not> set (elements_or_empty st scopes_ref) \<subseteq> set (elements_or_empty st (req_scopes req))
            \<longrightarrow> fst (requireScopesMiddleware scopes_ref req st) = [SendStatus 403])"
proof -
  have "fold removeAll (foldl Set_add [] (elements_or_empty st (req_scopes req)))
          (foldl Set_add [] (elements_or_empty st scopes_ref)) = []
        \<longleftrightarrow> set (elements_or_empty st scopes_ref) \<subseteq> set (elements_or_empty st (req_scopes req))"
    using set_fold_removeAll [of "foldl Set_add [] (elements_or_empty st (req_scopes req))"
            "foldl Set_add [] (elements_or_empty st scopes_ref)"]
    by (simp add: set_foldl_Set_add flip: set_empty)
  then show ?thesis
    by (simp add: requireScopesMiddleware_eq [OF assms] Let_def HttpStatus_FORBIDDEN_def)
qed

theorem requireScopes_next_iff_contained_witness:
  "ref_ok example_store (Some 0)
   \<and> fst (requireScopesMiddleware (Some 0) (example_req [] (Some 1)) example_store) = [Next]
   \<and> fst (requireScopesMiddleware (Some 0) (example_req [] (Some 2)) example_store) = [SendStatus 403]
   \<and> fst (requireScopesMiddleware (Some 0) (example_req [] None) example_store) = [SendStatus 403]"
  using requireScopes_next_iff_contained [of example_store "Some 0" "example_req [] (Some 1)"]
    requireScopes_next_iff_contained [of example_store "Some 0" "example_req [] (Some 2)"]
    requireScopes_next_iff_contained [of example_store "Some 0" "example_req [] None"]
  by (simp add: ref_ok_def example_store_def example_req_def elements_or_empty_def)

text \<open>
  C9. Running the middleware of \<open>requireScopesMiddleware\<close> leaves the request and the
  scopes attached to it as they were: the two sets it works on are new objects, every
  object that existed before the call is unchanged, and so is what \<^verbatim>\<open>req.scopes\<close>
  reads as.
\<close>

theorem requireScopes_leaves_request_scopes:
  assumes "ref_ok st scopes_ref" and "ref_ok st (req_scopes req)"
  shows "fst (snd (requireScopesMiddleware scopes_ref req st)) = req
       \<and> (\<forall>a. a < nxt st \<longrightarrow> objs (snd (snd (requireScopesMiddleware scopes_ref req st))) a = objs st a)
       \<and> elements_or_empty (snd (snd (requireScopesMiddleware scopes_ref req st))) (req_scopes req)
           = elements_or_empty st (req_scopes req)"
  using assms(2)
  by (auto simp: requireScopesMiddleware_eq [OF assms(1)] Let_def elements_or_empty_def ref_ok_def
        split: option.splits)

theorem requireScopes_leaves_request_scopes_witness:
  "ref_ok example_store (Some 0) \<and> ref_ok example_store (Some 2)
   \<and> fst (snd (requireScopesMiddleware (Some 0) (example_req [] (Some 2)) example_store))
       = example_req [] (Some 2)
   \<and> elements_or_empty (snd (snd (requireScopesMiddleware (Some 0) (example_req [] (Some 2)) example_store)))
        (Some 2) = [''A'']"
  using requireScopes_leaves_request_scopes [of example_store "Some 0" "example_req [] (Some 2)"]
  by (simp add: ref_ok_def example_store_def example_req_def elements_or_empty_def)

section \<open>handleOAuthRequestMiddleware: the inbound gate\<close>

text \<open>
  C7. For a request whose path matches one of the patterns in \<open>publicEndpoints\<close>,
  the middleware of \<open>handleOAuthRequestMiddleware\<close> calls \<^verbatim>\<open>next()\<close> and does nothing
  else: no introspection request is sent and the request is left as it is, also when it
  carries no authorization header.
\<close>

theorem public_path_continues:
  assumes "\<not> falsy (tokenInfoEndpoint options)"
    and "publicEndpoints options = Some patterns"
    and "p \<in> set patterns" and "fnmatch W p (originalUrl req)"
  shows "\<exists>mw. handleOAuthRequestMiddleware W options = Inr mw \<and> mw req st = ([Next], req, st)"
proof -
  have "is_public W options req"
    using assms(2-4) by (auto simp: is_public_def match_def list_ex_iff)
  then show ?thesis
    using assms(1) by (simp add: handleOAuthRequestMiddleware_def oauth_middleware_def)
qed

theorem public_path_continues_witness:
  "getHeaderValue (example_req [] None) AUTHORIZATION_HEADER_FIELD_NAME = None
   \<and> (\<exists>mw. handleOAuthRequestMiddleware (example_world forbidden_answer) example_middleware_options = Inr mw
          \<and> mw (example_req [] None) example_store = ([Next], example_req [] None, example_store))"
  using public_path_continues
    [of example_middleware_options "[''/health'', ''/campaigns'']" "''/campaigns''"
        "example_world forbidden_answer" "example_req [] None" example_store]
  by (simp add: example_middleware_options_def example_world_def example_req_def falsy_def
        getHeaderValue_def)

text \<open>
  C8. For a request that is not public and from whose authorization header no bearer
  token is extracted (the header is absent or malformed), the middleware rejects the
  request with 401 Unauthorized and sends no introspection request.
\<close>

theorem missing_token_rejects_401:
  assumes "\<not> falsy (tokenInfoEndpoint options)"
    and "\<not> is_public W options req"
    and "falsy (extractAccessToken W (getHeaderValue req AUTHORIZATION_HEADER_FIELD_NAME))"
  shows "\<exists>mw. handleOAuthRequestMiddleware W options = Inr mw
             \<and> mw req st = ([SendStatus 401], req, st)"
  using assms
  by (simp add: handleOAuthRequestMiddleware_def oauth_middleware_def rejectRequest_def
        HttpStatus_UNAUTHORIZED_def)

theorem missing_token_rejects_401_witness:
  "(\<exists>mw. handleOAuthRequestMiddleware (example_world token_answer)
            (example_middleware_options\<lparr>publicEndpoints := None\<rparr>) = Inr mw
        \<and> mw (example_req [] None) example_store
            = ([SendStatus 401], example_req [] None, example_store))
   \<and> (\<exists>mw. handleOAuthRequestMiddleware (example_world token_answer)
            (example_middleware_options\<lparr>publicEndpoints := None\<rparr>) = Inr mw
        \<and> mw (example_req [(''authorization'', ''Basic aWQ6c2VjcmV0'')] None) example_store
            = ([SendStatus 401], example_req [(''authorization'', ''Basic aWQ6c2VjcmV0'')] None, example_store))"
  using missing_token_rejects_401
    [of "example_middleware_options\<lparr>publicEndpoints := None\<rparr>" "example_world token_answer"
        "example_req [] None" example_store]
    missing_token_rejects_401
    [of "example_middleware_options\<lparr>publicEndpoints := None\<rparr>" "example_world token_answer"
        "example_req [(''authorization'', ''Basic aWQ6c2VjcmV0'')] None" example_store]
  by (simp add: example_middleware_options_def example_world_def example_req_def falsy_def
        getHeaderValue_def is_public_def example_extract_def AUTHORIZATION_HEADER_FIELD_NAME_def)

text \<open>
  Whatever makes \<open>getTokenInfo\<close> reject, the rejection value is the wrapper
  \<^verbatim>\<open>{ msg, err }\<close>, which has no property \<^verbatim>\<open>status\<close> of its own: the
  \<^verbatim>\<open>.catch\<close> callback of the middleware always falls back to the default status.
\<close>

lemma introspection_failure_sends_default:
  assumes "fst (getTokenInfo W tokenInfoUrl accessToken) = Rejected err"
  shows "on_introspection_failure err = [SendStatus HttpStatus_UNAUTHORIZED]"
proof -
  obtain e where "err = Obj [(''msg'', Str (''Error requesting tokeninfo from '' @ tokenInfoUrl)), (''err'', e)]"
    using assms
    by (auto simp: getTokenInfo_def settle_def on_catch_def Let_def
          split: fetch_result.splits sum.splits)
  then show ?thesis
    by (simp add: on_introspection_failure_def rejectRequest_def)
qed

text \<open>
  C6 asks that a failed introspection be answered with the status of the failure when
  there is one. The code at an endpoint that answers 403 with a JSON body: the token is
  extracted, one introspection request is sent, and the request is rejected with 401,
  since \<^verbatim>\<open>err.status\<close> is read from the wrapper and not from the
  \<^verbatim>\<open>{ status, data }\<close> inside it.
\<close>

theorem introspection_status_403_answered_with_401:
  "fetch (example_world forbidden_answer) (token_info_request ''https://auth.example/tokeninfo'' ''tok'')
     = Responded \<lparr>status = 403, json = Inr (Obj [(''error'', Str ''invalid_token'')])\<rparr>
   \<and> handleOAuthRequestMiddleware (example_world forbidden_answer)
        (example_middleware_options\<lparr>publicEndpoints := None\<rparr>)
     = Inr (oauth_middleware (example_world forbidden_answer)
              (example_middleware_options\<lparr>publicEndpoints := None\<rparr>))
   \<and> oauth_middleware (example_world forbidden_answer)
        (example_middleware_options\<lparr>publicEndpoints := None\<rparr>)
        (example_req [(''authorization'', ''Bearer tok'')] None) example_store
     = ([Fetch (token_info_request ''https://auth.example/tokeninfo'' ''tok''), SendStatus 401],
        example_req [(''authorization'', ''Bearer tok'')] None, example_store)"
  by (simp add: example_middleware_options_def example_world_def example_req_def falsy_def
        getHeaderValue_def is_public_def example_extract_def AUTHORIZATION_HEADER_FIELD_NAME_def
        handleOAuthRequestMiddleware_def oauth_middleware_def getTokenInfo_def settle_def
        on_response_def on_catch_def on_introspection_failure_def rejectRequest_def str_of_def
        forbidden_answer_def HttpStatus_OK_def HttpStatus_UNAUTHORIZED_def Let_def)

end
